theory Spec2Isabelle
  imports Main "HOL-Library.Word"
begin

unbundle bit_operations_syntax

section \<open>The VI filter pipeline of core/vi.c\<close>

text \<open>
  The embedding follows \<^verbatim>\<open>src/core/vi.c\<close>. The memory-mapped registers are
  32-bit words. The file-level statics of the C file are the fields of the record
  \<open>vi_state\<close>. Values of type \<^verbatim>\<open>int32_t\<close>, \<^verbatim>\<open>int\<close> and \<^verbatim>\<open>uint32_t\<close> are
  integers; every register field is masked to at most 24 bits before it is used, so
  signed arithmetic stays far inside 32 bits, and where the C code computes in
  \<^verbatim>\<open>uint32_t\<close> the reduction modulo \<open>2 ^ 32\<close> is written out with \<open>u32\<close>.
  The compile-time switches \<^verbatim>\<open>ENABLE_TVFADEOUT\<close> and \<^verbatim>\<open>ENABLE_OVERSCAN\<close> are
  both defined as 0 in the source, so the blocks they guard are not part of the
  program and not part of the model.
\<close>

subsection \<open>C arithmetic\<close>

definition u32 :: "int \<Rightarrow> int" where
  \<comment> \<open>conversion to \<^verbatim>\<open>uint32_t\<close>\<close>
  "u32 x = x mod 2 ^ 32"

definition s32 :: "int \<Rightarrow> int" where
  \<comment> \<open>conversion to \<^verbatim>\<open>int32_t\<close>\<close>
  "s32 x = (let y = x mod 2 ^ 32 in if y < 2 ^ 31 then y else y - 2 ^ 32)"

definition c_div :: "int \<Rightarrow> int \<Rightarrow> int" where
  \<comment> \<open>the signed division of C truncates towards zero\<close>
  "c_div a b = sgn a * sgn b * (\<bar>a\<bar> div \<bar>b\<bar>)"

abbreviation PRESCALE_WIDTH :: int where "PRESCALE_WIDTH \<equiv> 640"
abbreviation PRESCALE_HEIGHT :: int where "PRESCALE_HEIGHT \<equiv> 625"
abbreviation V_SYNC_NTSC :: int where "V_SYNC_NTSC \<equiv> 525"

subsection \<open>Registers and the control word\<close>

record vi_regs =
  VI_STATUS :: "32 word"
  VI_ORIGIN :: "32 word"
  VI_WIDTH :: "32 word"
  VI_V_CURRENT_LINE :: "32 word"
  VI_X_SCALE :: "32 word"
  VI_Y_SCALE :: "32 word"
  VI_H_START :: "32 word"
  VI_V_START :: "32 word"
  VI_V_SYNC :: "32 word"

text \<open>
  The bit fields of \<^verbatim>\<open>union vi_reg_ctrl\<close>, allocated from the least significant bit
  in declaration order.
\<close>

definition ctrl_type :: "32 word \<Rightarrow> int" where
  "ctrl_type c = uint (c AND 3)"

definition ctrl_gamma_dither_enable :: "32 word \<Rightarrow> int" where
  "ctrl_gamma_dither_enable c = uint (drop_bit 2 c AND 1)"

definition ctrl_gamma_enable :: "32 word \<Rightarrow> int" where
  "ctrl_gamma_enable c = uint (drop_bit 3 c AND 1)"

definition ctrl_divot_enable :: "32 word \<Rightarrow> int" where
  "ctrl_divot_enable c = uint (drop_bit 4 c AND 1)"

definition ctrl_vbus_clock_enable :: "32 word \<Rightarrow> int" where
  "ctrl_vbus_clock_enable c = uint (drop_bit 5 c AND 1)"

definition ctrl_serrate :: "32 word \<Rightarrow> int" where
  "ctrl_serrate c = uint (drop_bit 6 c AND 1)"

definition ctrl_aa_mode :: "32 word \<Rightarrow> int" where
  "ctrl_aa_mode c = uint (drop_bit 8 c AND 3)"

abbreviation VI_TYPE_RGBA5551 :: int where "VI_TYPE_RGBA5551 \<equiv> 2"
abbreviation VI_TYPE_RGBA8888 :: int where "VI_TYPE_RGBA8888 \<equiv> 3"
abbreviation VI_AA_REPLICATE :: int where "VI_AA_REPLICATE \<equiv> 3"

subsection \<open>The statics of vi.c\<close>

datatype msg = Msg_error string | Msg_warning string

record vi_state =
  prevvicurrent :: int
  emucontrolsvicurrent :: int
  prevserrate :: int
  oldlowerfield :: int
  oldvstart :: int
  prevwasblank :: int
  vactivelines :: int
  ispal :: int
  minhpass :: int
  maxhpass :: int
  x_add :: int
  x_start_init :: int
  y_add :: int
  y_start :: int
  v_sync :: int
  vi_width_low :: int
  frame_buffer :: int
  prescale_ptr :: int
  linecount :: int
  ctrl :: "32 word"
  hres :: int
  vres :: int
  hres_raw :: int
  vres_raw :: int
  v_start :: int
  h_start :: int
  nolerp :: int
  vbusclock :: int
  vi_fetch_filter_ptr :: int
  sink :: "msg list"

text \<open>
  Modelled from the spec: \<^verbatim>\<open>msg_error\<close> and \<^verbatim>\<open>msg_warning\<close> (msg.h) are not among
  the sources. The spec calls them the message sink: an error is reported as fatal
  through it and a warning is emitted. In the model a call appends the message to the
  field \<open>sink\<close>, and the function goes on, as the code after each call does.
\<close>

text \<open>\<^verbatim>\<open>vi_init\<close>: the statics are zero-initialised; six of them are set.\<close>

definition vi_init :: vi_state where
  "vi_init = \<lparr>prevvicurrent = 0, emucontrolsvicurrent = - 1, prevserrate = 0,
     oldlowerfield = 0, oldvstart = 1337, prevwasblank = 0, vactivelines = 0, ispal = 0,
     minhpass = 0, maxhpass = 0, x_add = 0, x_start_init = 0, y_add = 0, y_start = 0,
     v_sync = 0, vi_width_low = 0, frame_buffer = 0, prescale_ptr = 0, linecount = 0,
     ctrl = 0, hres = 0, vres = 0, hres_raw = 0, vres_raw = 0, v_start = 0, h_start = 0,
     nolerp = 0, vbusclock = 0, vi_fetch_filter_ptr = 0, sink = []\<rparr>"

subsection \<open>vi_process_start\<close>

text \<open>
  The function is split along its source lines. Each part first names the values the
  code computes, in the order of the code, and then assigns them to the statics in one
  record update; a statement \<^verbatim>\<open>if (c) x = e;\<close> becomes the assignment of
  \<open>if c then e else x\<close>, and a conditional call of \<^verbatim>\<open>msg_error\<close> or
  \<^verbatim>\<open>msg_warning\<close> appends a list that is empty when the condition fails.

  \<open>start_decode\<close> is lines 207 to 255: the active window, the control word, the two
  one-time warnings, the PAL test and the clamp of a negative \<^verbatim>\<open>h_start\<close>. It returns
  the local \<^verbatim>\<open>h_start_clamped\<close>.
\<close>

definition start_decode :: "vi_regs \<Rightarrow> vi_state \<Rightarrow> vi_state \<times> bool" where
  "start_decode regs s =
    (let v_start0 = uint (drop_bit 16 (VI_V_START regs) AND 0x3ff);
         h_start0 = uint (drop_bit 16 (VI_H_START regs) AND 0x3ff);
         v_end = uint (VI_V_START regs AND 0x3ff);
         h_end = uint (VI_H_START regs AND 0x3ff);
         c = VI_STATUS regs;
         bad_type = (ctrl_type c AND NOT 3 \<noteq> 0);
         warn_vbus = (ctrl_vbus_clock_enable c \<noteq> 0 \<and> vbusclock s = 0);
         v_sync0 = uint (VI_V_SYNC regs AND 0x3ff);
         x_add0 = uint (VI_X_SCALE regs AND 0xfff);
         warn_nolerp = (ctrl_aa_mode c = VI_AA_REPLICATE \<and> ctrl_type c = VI_TYPE_RGBA5551
                          \<and> nolerp s = 0 \<and> h_start0 < 0x80 \<and> x_add0 \<le> 0x200);
         pal = (if v_sync0 > V_SYNC_NTSC + 25 then 1 else 0);
         h_start1 = h_start0 - (if pal \<noteq> 0 then 128 else 108);
         x_start_init0 = uint (drop_bit 16 (VI_X_SCALE regs) AND 0xfff);
         h_start_clamped = (h_start1 < 0)
     in (s\<lparr>v_start := v_start0,
           h_start := (if h_start_clamped then 0 else h_start1),
           hres := (if h_start_clamped then h_end - h_start0 + h_start1 else h_end - h_start0),
           vres := (v_end - v_start0) div 2,
           ctrl := c,
           vi_fetch_filter_ptr := ctrl_type c AND 1,
           v_sync := v_sync0,
           x_add := x_add0,
           ispal := pal,
           x_start_init :=
             (if h_start_clamped then u32 (x_start_init0 + x_add0 * u32 (- h_start1))
              else x_start_init0),
           vbusclock := (if warn_vbus then 1 else vbusclock s),
           nolerp := (if warn_nolerp then 1 else nolerp s),
           sink := sink s
             @ (if bad_type then [Msg_error ''Unknown framebuffer format''] else [])
             @ (if warn_vbus then [Msg_warning ''vbus_clock_enable bit set''] else [])
             @ (if warn_nolerp then [Msg_warning ''Disabling VI interpolation causes glitches'']
                else [])\<rparr>,
         h_start_clamped))"

text \<open>
  Lines 257 to 284: the interlace field. The local \<^verbatim>\<open>lowerfield\<close> is returned next to
  the state, since line 340 uses it again. \<open>v_start s\<close> is still the register field here.
\<close>

definition start_field :: "vi_regs \<Rightarrow> vi_state \<Rightarrow> vi_state \<times> int" where
  "start_field regs s =
    (let cur = uint (VI_V_CURRENT_LINE regs AND 1);
         validinterlace = (ctrl_type (ctrl s) AND 2 \<noteq> 0 \<and> ctrl_serrate (ctrl s) \<noteq> 0);
         emu = (if validinterlace \<and> prevserrate s \<noteq> 0 \<and> emucontrolsvicurrent s < 0
                then (if cur \<noteq> prevvicurrent s then 1 else 0)
                else emucontrolsvicurrent s);
         lowerfield =
           (if validinterlace
            then (if emu = 1 then cur XOR 1
                  else if emu = 0
                  then (if v_start s = oldvstart s then oldlowerfield s XOR 1
                        else (if v_start s < oldvstart s then 1 else 0))
                  else 0)
            else 0)
     in (s\<lparr>emucontrolsvicurrent := emu,
           oldlowerfield := lowerfield,
           prevserrate := (if validinterlace then 1 else 0),
           prevvicurrent := (if validinterlace then cur else prevvicurrent s),
           oldvstart := (if validinterlace then v_start s else oldvstart s)\<rparr>,
         lowerfield))"

text \<open>
  Lines 286 to 298: the vertical offset. The locals \<^verbatim>\<open>lineshifter\<close> and
  \<^verbatim>\<open>vstartoffset\<close> are returned.
\<close>

definition start_vertical :: "vi_regs \<Rightarrow> vi_state \<Rightarrow> vi_state \<times> nat \<times> int" where
  "start_vertical regs s =
    (let lineshifter = (if ctrl_serrate (ctrl s) = 0 then 1 else 0);
         vstartoffset = (if ispal s \<noteq> 0 then 44 else 34);
         v_start1 = c_div (v_start s - vstartoffset) 2;
         y_start0 = uint (drop_bit 16 (VI_Y_SCALE regs) AND 0xfff);
         y_add0 = uint (VI_Y_SCALE regs AND 0xfff)
     in (s\<lparr>v_start := (if v_start1 < 0 then 0 else v_start1),
           y_start := (if v_start1 < 0 then u32 (y_start0 + y_add0 * u32 (- v_start1))
                       else y_start0),
           y_add := y_add0\<rparr>,
         lineshifter, vstartoffset))"

text \<open>Lines 300 to 312: the clamps to the prescale area. Returns \<^verbatim>\<open>hres_clamped\<close>.\<close>

definition start_clamp :: "vi_state \<Rightarrow> vi_state \<times> bool" where
  "start_clamp s =
    (let hres_clamped = (hres s + h_start s > PRESCALE_WIDTH);
         vres_clamped = (vres s + v_start s > PRESCALE_HEIGHT)
     in (s\<lparr>hres := (if hres_clamped then PRESCALE_WIDTH - h_start s else hres s),
           vres := (if vres_clamped then PRESCALE_HEIGHT - v_start s else vres s),
           sink := sink s @ (if vres_clamped then [Msg_warning ''vres''] else [])\<rparr>,
         hres_clamped))"

text \<open>
  Lines 317 to 347 and 445: the active lines, the pass band, the blank test, the
  prescale pointer and the frame buffer. The first component is the return value. The
  three early returns keep what was assigned before them.
\<close>

definition start_finish ::
  "vi_regs \<Rightarrow> bool \<Rightarrow> int \<Rightarrow> nat \<Rightarrow> int \<Rightarrow> bool \<Rightarrow> vi_state \<Rightarrow> int \<times> vi_state" where
  "start_finish regs h_start_clamped lowerfield lineshifter vstartoffset hres_clamped s =
    (let d = v_sync s - vstartoffset;
         s1 = s\<lparr>vactivelines := d,
                sink := sink s @ (if d > PRESCALE_HEIGHT
                                  then [Msg_error ''VI_V_SYNC_REG too big''] else [])\<rparr>;
         validh = (hres s > 0 \<and> h_start s < PRESCALE_WIDTH);
         s2 = s1\<lparr>vactivelines := d div 2 ^ lineshifter,
                 minhpass := (if h_start_clamped then 0 else 8),
                 maxhpass := (if hres_clamped then hres s else hres s - 7)\<rparr>;
         lc = (if ctrl_serrate (ctrl s) \<noteq> 0 then PRESCALE_WIDTH * 2 else PRESCALE_WIDTH);
         fb = uint (VI_ORIGIN regs AND 0xffffff);
         s3 = s2\<lparr>linecount := lc,
                 prescale_ptr := u32 (v_start s * lc + h_start s
                                      + (if lowerfield \<noteq> 0 then PRESCALE_WIDTH else 0)),
                 vi_width_low := uint (VI_WIDTH regs AND 0xfff),
                 frame_buffer := fb\<rparr>
     in if d < 0 then (0, s1)
        else if ctrl_type (ctrl s) AND 2 = 0 \<and> prevwasblank s \<noteq> 0 then (0, s2)
        else if fb = 0 then (0, s3)
        else (if validh then 1 else 0, s3))"

definition vi_process_start :: "vi_regs \<Rightarrow> vi_state \<Rightarrow> int \<times> vi_state" where
  "vi_process_start regs s =
    (let (s1, h_start_clamped) = start_decode regs s;
         (s2, lowerfield) = start_field regs s1;
         (s3, lineshifter, vstartoffset) = start_vertical regs s2;
         (s4, hres_clamped) = start_clamp s3
     in start_finish regs h_start_clamped lowerfield lineshifter vstartoffset hres_clamped s4)"

subsection \<open>vi_process_start_fast\<close>

text \<open>
  In the fast start \<^verbatim>\<open>v_start\<close> and \<^verbatim>\<open>h_start\<close> are locals that shadow the statics.
  \<^verbatim>\<open>x_add * hres\<close> is a product in \<^verbatim>\<open>uint32_t\<close>, divided unsigned and stored in an
  \<^verbatim>\<open>int32_t\<close>. Each return keeps the statics assigned before it.
\<close>

definition vi_process_start_fast :: "vi_regs \<Rightarrow> vi_state \<Rightarrow> int \<times> vi_state" where
  "vi_process_start_fast regs s =
    (let v_start0 = uint (drop_bit 16 (VI_V_START regs) AND 0x3ff);
         h_start0 = uint (drop_bit 16 (VI_H_START regs) AND 0x3ff);
         v_end = uint (VI_V_START regs AND 0x3ff);
         h_end = uint (VI_H_START regs AND 0x3ff);
         hres0 = h_end - h_start0;
         vres0 = (v_end - v_start0) div 2;
         s1 = s\<lparr>hres := hres0, vres := vres0\<rparr>;
         x_add0 = uint (VI_X_SCALE regs AND 0xfff);
         y_add0 = uint (VI_Y_SCALE regs AND 0xfff);
         hres_raw0 = s32 (u32 (x_add0 * u32 hres0) div 1024);
         vres_raw0 = s32 (u32 (y_add0 * u32 vres0) div 1024);
         s2 = s1\<lparr>x_add := x_add0, y_add := y_add0, hres_raw := hres_raw0, vres_raw := vres_raw0\<rparr>;
         fb = uint (VI_ORIGIN regs AND 0xffffff);
         s3 = s2\<lparr>vi_width_low := uint (VI_WIDTH regs AND 0xfff), frame_buffer := fb\<rparr>;
         c = VI_STATUS regs;
         s4 = s3\<lparr>ctrl := c, v_sync := uint (VI_V_SYNC regs AND 0x3ff)\<rparr>;
         s5 = s4\<lparr>sink := sink s @ (if ctrl_type c AND NOT 3 \<noteq> 0
                                       then [Msg_error ''Unknown framebuffer format''] else [])\<rparr>
     in if hres0 \<le> 0 \<or> vres0 \<le> 0 then (0, s1)
        else if hres_raw0 \<le> 0 \<or> vres_raw0 \<le> 0 then (0, s2)
        else if VI_V_CURRENT_LINE regs AND 1 \<noteq> 0 then (0, s2)
        else if fb = 0 then (0, s3)
        else if ctrl_type c AND 2 = 0 then (0, s4)
        else (1, s5))"

subsection \<open>Samples and the leaf operations\<close>

record ccvg =
  ccvg_r :: "8 word"
  ccvg_g :: "8 word"
  ccvg_b :: "8 word"
  ccvg_cvg :: "8 word"

text \<open>
  The files \<^verbatim>\<open>vi/fetch.c\<close>, \<^verbatim>\<open>vi/divot.c\<close>, \<^verbatim>\<open>vi/lerp.c\<close>, \<^verbatim>\<open>vi/gamma.c\<close>,
  \<^verbatim>\<open>irand.h\<close> and \<^verbatim>\<open>rdram.h\<close> are not among the sources. What \<^verbatim>\<open>vi.c\<close> calls
  from them is a parameter of the model: the two fetch functions of the table
  \<^verbatim>\<open>vi_fetch_filter_func\<close> (they read RDRAM, which the VI does not change), the divot
  filter, the linear interpolation, the pieces of the gamma stage, and the RDRAM readers
  of the fast path.
\<close>

record leaf_ops =
  vi_fetch_filter_func :: "int \<Rightarrow> int \<Rightarrow> int \<Rightarrow> 32 word \<Rightarrow> int \<Rightarrow> int \<Rightarrow> ccvg"
  divot_filter :: "ccvg \<Rightarrow> ccvg \<Rightarrow> ccvg \<Rightarrow> ccvg"
  vi_vl_lerp :: "ccvg \<Rightarrow> ccvg \<Rightarrow> int \<Rightarrow> ccvg"
  irand :: "int \<Rightarrow> int \<times> int"
  gamma_dither :: "int \<Rightarrow> int \<times> int \<times> int \<Rightarrow> int \<times> int \<times> int"
  gamma_table :: "int \<Rightarrow> int"
  rdram_read_idx16 :: "int \<Rightarrow> int"
  rdram_read_idx32 :: "int \<Rightarrow> int"
  rdram_read_pair16 :: "int \<Rightarrow> int \<times> int"
  rdp_get_zb_address :: int

text \<open>
  Modelled from the spec: \<^verbatim>\<open>gamma_filters\<close> (vi/gamma.c) is not among the sources. The
  spec says: if \<^verbatim>\<open>gamma_dither_enable\<close>, apply a dither derived from a process-wide
  PRNG; if \<^verbatim>\<open>gamma_enable\<close>, look up each channel through a table of 256 entries.
  The state of the PRNG is passed in and returned; \<open>irand\<close> steps it and yields the
  random value, \<open>gamma_dither\<close> applies that value to the colour.
\<close>

definition gamma_filters ::
  "leaf_ops \<Rightarrow> int \<times> int \<times> int \<Rightarrow> 32 word \<Rightarrow> int \<Rightarrow> (int \<times> int \<times> int) \<times> int" where
  "gamma_filters L rgb c seed =
    (let (rgb1, seed1) =
           (if ctrl_gamma_dither_enable c \<noteq> 0
            then (let (v, seed') = irand L seed in (gamma_dither L v rgb, seed'))
            else (rgb, seed));
         rgb2 =
           (if ctrl_gamma_enable c \<noteq> 0
            then (case rgb1 of (r, g, b) \<Rightarrow> (gamma_table L r, gamma_table L g, gamma_table L b))
            else rgb1)
     in (rgb2, seed1))"

subsection \<open>The locals of vi_process\<close>

text \<open>
  \<^verbatim>\<open>vi_process\<close> keeps four caches: \<^verbatim>\<open>viaa_cache\<close> and \<^verbatim>\<open>viaa_cache_next\<close> point
  into \<^verbatim>\<open>viaa_array\<close>, \<^verbatim>\<open>divot_cache\<close> and \<^verbatim>\<open>divot_cache_next\<close> into
  \<^verbatim>\<open>divot_array\<close>. The four blocks of the C code that fill them are the same text
  up to the names, so the model indexes the pointers and the markers by a cache name:
  \<open>cache l Viaa\<close> is the offset of \<^verbatim>\<open>viaa_cache\<close> in \<^verbatim>\<open>viaa_array\<close>, \<open>marker l Viaa\<close>
  is \<^verbatim>\<open>cache_marker\<close>, \<open>marker l Viaa_next\<close> is \<^verbatim>\<open>cache_next_marker\<close>,
  \<open>marker l Divot\<close> is \<^verbatim>\<open>divot_cache_marker\<close> and \<open>marker l Divot_next\<close> is
  \<^verbatim>\<open>divot_cache_next_marker\<close>. The arrays are stores from index to sample.

  Each C array has \<^verbatim>\<open>0xa10 << 1\<close> entries, and the second pointer of each pair starts
  in the middle of its array. An access \<^verbatim>\<open>cache[k]\<close> whose index \<open>cache l c + k\<close> in the
  array is negative or not below \<^verbatim>\<open>0xa10 << 1\<close> is undefined behaviour in C. The model
  tests every access (\<open>in_array\<close>): an access outside writes nothing, reads the sample
  \<open>no_sample\<close>, and sets the field \<open>fault\<close>, which is never cleared. A run that ends
  with \<open>fault\<close> set has no defined result in C; \<open>vi_update\<close> answers \<open>None\<close> for it.

  Four fields are not variables of the C function. \<open>fault\<close> is the one just described.
  \<open>stores\<close> lists the assignments \<^verbatim>\<open>d[i] = ...\<close> to the prescale buffer in program
  order, as pairs of the index into \<^verbatim>\<open>prescale\<close> and the value. \<open>trace\<close> lists the
  accesses to the caches in program order. \<open>rgbs\<close> lists the values of \<^verbatim>\<open>r, g, b\<close>
  after each call of \<^verbatim>\<open>gamma_filters\<close>. \<open>iseed\<close> is the state of the process-wide
  PRNG.
\<close>

datatype cache_id = Viaa | Viaa_next | Divot | Divot_next

datatype event = Fetch cache_id int | Mark cache_id int | Read cache_id int

record vi_locals =
  x_start :: int
  marker :: "cache_id \<Rightarrow> int"
  cache :: "cache_id \<Rightarrow> int"
  viaa_array :: "int \<Rightarrow> ccvg"
  divot_array :: "int \<Rightarrow> ccvg"
  fetchbugstate :: int
  cache_init :: bool
  iseed :: int
  stores :: "(int \<times> int) list"
  trace :: "event list"
  rgbs :: "(int \<times> int \<times> int) list"
  fault :: bool

fun in_viaa :: "cache_id \<Rightarrow> bool" where
  "in_viaa Viaa = True"
| "in_viaa Viaa_next = True"
| "in_viaa Divot = False"
| "in_viaa Divot_next = False"

abbreviation CACHE_ARRAY_LEN :: int where "CACHE_ARRAY_LEN \<equiv> 0xa10 * 2"

definition in_array :: "cache_id \<Rightarrow> int \<Rightarrow> vi_locals \<Rightarrow> bool" where
  "in_array c k l = (0 \<le> cache l c + k \<and> cache l c + k < CACHE_ARRAY_LEN)"

definition no_sample :: ccvg where
  "no_sample = \<lparr>ccvg_r = 0, ccvg_g = 0, ccvg_b = 0, ccvg_cvg = 0\<rparr>"

definition cache_get :: "cache_id \<Rightarrow> int \<Rightarrow> vi_locals \<Rightarrow> ccvg option" where
  "cache_get c k l =
    (if in_array c k l
     then Some (if in_viaa c then viaa_array l (cache l c + k) else divot_array l (cache l c + k))
     else None)"

definition cache_read :: "cache_id \<Rightarrow> int \<Rightarrow> vi_locals \<Rightarrow> ccvg \<times> vi_locals" where
  "cache_read c k l =
    (case cache_get c k l of
       Some v \<Rightarrow> (v, l\<lparr>trace := trace l @ [Read c k]\<rparr>)
     | None \<Rightarrow> (no_sample, l\<lparr>trace := trace l @ [Read c k], fault := True\<rparr>))"

definition cache_put :: "cache_id \<Rightarrow> int \<Rightarrow> ccvg \<Rightarrow> vi_locals \<Rightarrow> vi_locals" where
  "cache_put c k v l =
    (if \<not> in_array c k l then l\<lparr>trace := trace l @ [Fetch c k], fault := True\<rparr>
     else if in_viaa c
     then l\<lparr>viaa_array := (viaa_array l)(cache l c + k := v), trace := trace l @ [Fetch c k]\<rparr>
     else l\<lparr>divot_array := (divot_array l)(cache l c + k := v), trace := trace l @ [Fetch c k]\<rparr>)"

definition set_marker :: "cache_id \<Rightarrow> int \<Rightarrow> vi_locals \<Rightarrow> vi_locals" where
  "set_marker c v l = l\<lparr>marker := (marker l)(c := v), trace := trace l @ [Mark c v]\<rparr>"

text \<open>\<^verbatim>\<open>vi_fetch_filter_ptr(&cache[k], frame_buffer, x, ctrl, vi_width_low, fbs)\<close>\<close>

definition fetch :: "leaf_ops \<Rightarrow> vi_state \<Rightarrow> cache_id \<Rightarrow> int \<Rightarrow> int \<Rightarrow> int \<Rightarrow> vi_locals \<Rightarrow> vi_locals" where
  "fetch L s c k x fbs l =
    cache_put c k
      (vi_fetch_filter_func L (vi_fetch_filter_ptr s) (frame_buffer s) x (ctrl s)
         (vi_width_low s) fbs) l"

text \<open>
  Lines 531 to 548 for \<^verbatim>\<open>viaa_cache\<close> and lines 550 to 567 for \<^verbatim>\<open>viaa_cache_next\<close>:
  the three-tap window.
\<close>

definition aa_window ::
  "leaf_ops \<Rightarrow> vi_state \<Rightarrow> cache_id \<Rightarrow> int \<Rightarrow> int \<Rightarrow> int \<Rightarrow> int \<Rightarrow> int \<Rightarrow> int \<Rightarrow> int
     \<Rightarrow> vi_locals \<Rightarrow> vi_locals" where
  "aa_window L s c prev_line_x line_x next_line_x prev_x cur_x next_x fbs l =
    (if prev_line_x > marker l c
     then set_marker c next_line_x
            (fetch L s c next_line_x next_x fbs
              (fetch L s c line_x cur_x fbs
                (fetch L s c prev_line_x prev_x fbs l)))
     else if line_x > marker l c
     then set_marker c next_line_x
            (fetch L s c next_line_x next_x fbs
              (fetch L s c line_x cur_x fbs l))
     else if next_line_x > marker l c
     then set_marker c next_line_x (fetch L s c next_line_x next_x fbs l)
     else l)"

text \<open>Lines 571 to 575 and 577 to 581: the fourth tap of the divot filter.\<close>

definition far_fetch ::
  "leaf_ops \<Rightarrow> vi_state \<Rightarrow> cache_id \<Rightarrow> int \<Rightarrow> int \<Rightarrow> int \<Rightarrow> vi_locals \<Rightarrow> vi_locals" where
  "far_fetch L s c far_line_x far_x fbs l =
    (if far_line_x > marker l c
     then set_marker c far_line_x (fetch L s c far_line_x far_x fbs l)
     else l)"

text \<open>\<^verbatim>\<open>divot_filter(&dc[k], ac[ka], ac[kb], ac[kc])\<close>\<close>

definition divot_at ::
  "leaf_ops \<Rightarrow> cache_id \<Rightarrow> cache_id \<Rightarrow> int \<Rightarrow> int \<Rightarrow> int \<Rightarrow> int \<Rightarrow> vi_locals \<Rightarrow> vi_locals" where
  "divot_at L dc ac k ka kb kc l =
    (let (a, l1) = cache_read ac ka l;
         (b, l2) = cache_read ac kb l1;
         (c, l3) = cache_read ac kc l2
     in cache_put dc k (divot_filter L a b c) l3)"

text \<open>Lines 583 to 593 for \<^verbatim>\<open>divot_cache\<close> and 595 to 605 for \<^verbatim>\<open>divot_cache_next\<close>.\<close>

definition divot_window ::
  "leaf_ops \<Rightarrow> cache_id \<Rightarrow> cache_id \<Rightarrow> int \<Rightarrow> int \<Rightarrow> int \<Rightarrow> int \<Rightarrow> vi_locals \<Rightarrow> vi_locals" where
  "divot_window L dc ac prev_line_x line_x next_line_x far_line_x l =
    (if line_x > marker l dc
     then set_marker dc next_line_x
            (divot_at L dc ac next_line_x next_line_x line_x far_line_x
              (divot_at L dc ac line_x line_x prev_line_x next_line_x l))
     else if next_line_x > marker l dc
     then set_marker dc next_line_x
            (divot_at L dc ac next_line_x next_line_x line_x far_line_x l)
     else l)"

text \<open>Lines 569 to 612: the caches are brought up to date and \<^verbatim>\<open>color\<close> is read.\<close>

definition pick_color ::
  "leaf_ops \<Rightarrow> vi_state \<Rightarrow> int \<Rightarrow> int \<Rightarrow> int \<Rightarrow> int \<Rightarrow> int \<Rightarrow> int \<Rightarrow> vi_locals
     \<Rightarrow> ccvg \<times> vi_locals" where
  "pick_color L s prev_line_x line_x next_line_x far_line_x far_x far_scan_x l =
    (if ctrl_divot_enable (ctrl s) \<noteq> 0
     then
       (let l1 = far_fetch L s Viaa far_line_x far_x 0 l;
            l2 = far_fetch L s Viaa_next far_line_x far_scan_x (fetchbugstate l1) l1;
            l3 = divot_window L Divot Viaa prev_line_x line_x next_line_x far_line_x l2;
            l4 = divot_window L Divot_next Viaa_next prev_line_x line_x next_line_x far_line_x l3
        in cache_read Divot line_x l4)
     else cache_read Viaa line_x l)"

text \<open>Lines 614 to 632: the bilinear interpolation.\<close>

definition lerp_color ::
  "leaf_ops \<Rightarrow> vi_state \<Rightarrow> bool \<Rightarrow> int \<Rightarrow> int \<Rightarrow> int \<Rightarrow> int \<Rightarrow> ccvg \<Rightarrow> vi_locals
     \<Rightarrow> ccvg \<times> vi_locals" where
  "lerp_color L s lerping line_x next_line_x xfrac yfrac color l =
    (if lerping
     then
       (let cc = (if ctrl_divot_enable (ctrl s) \<noteq> 0 then Divot else Viaa);
            cn = (if ctrl_divot_enable (ctrl s) \<noteq> 0 then Divot_next else Viaa_next);
            (nextcolor, l1) = cache_read cc next_line_x l;
            (scancolor, l2) = cache_read cn line_x l1;
            (scannextcolor, l3) = cache_read cn next_line_x l2;
            color1 = vi_vl_lerp L color scancolor yfrac;
            nextcolor1 = vi_vl_lerp L nextcolor scannextcolor yfrac
        in (vi_vl_lerp L color1 nextcolor1 xfrac, l3))
     else (color, l))"

text \<open>
  Lines 634 to 643: gamma and the store \<^verbatim>\<open>d[i]\<close>, where \<^verbatim>\<open>d\<close> is
  \<^verbatim>\<open>prescale + prescale_ptr + linecount * j\<close>; \<open>dbase\<close> is the index of \<^verbatim>\<open>d[0]\<close>.
\<close>

definition pack_rgb :: "int \<times> int \<times> int \<Rightarrow> int" where
  "pack_rgb rgb = (case rgb of (r, g, b) \<Rightarrow> push_bit 16 r OR push_bit 8 g OR b)"

definition emit ::
  "leaf_ops \<Rightarrow> vi_state \<Rightarrow> int \<Rightarrow> int \<Rightarrow> ccvg \<Rightarrow> vi_locals \<Rightarrow> vi_locals" where
  "emit L s dbase i color l =
    (let (rgb, seed) =
           gamma_filters L (uint (ccvg_r color), uint (ccvg_g color), uint (ccvg_b color))
             (ctrl s) (iseed l)
     in l\<lparr>iseed := seed,
          stores := stores l @
            [(dbase + i, if i \<ge> minhpass s \<and> i < maxhpass s then pack_rgb rgb else 0)],
          rgbs := rgbs l @ [rgb]\<rparr>)"

text \<open>The body of the loop over the columns, lines 506 to 644, with its increment.\<close>

definition vi_column ::
  "leaf_ops \<Rightarrow> vi_state \<Rightarrow> int \<Rightarrow> int \<Rightarrow> int \<Rightarrow> int \<Rightarrow> vi_locals \<Rightarrow> int \<Rightarrow> vi_locals" where
  "vi_column L s pixels nextpixels yfrac dbase l i =
    (let line_x0 = x_start l div 1024;
         cur_x = s32 (u32 (pixels + line_x0));
         prev_x = s32 (u32 (pixels + (line_x0 - 1)));
         next_x = s32 (u32 (pixels + (line_x0 + 1)));
         far_x = s32 (u32 (pixels + (line_x0 + 2)));
         scan_x = s32 (u32 (nextpixels + line_x0));
         prev_scan_x = s32 (u32 (nextpixels + (line_x0 - 1)));
         next_scan_x = s32 (u32 (nextpixels + (line_x0 + 1)));
         far_scan_x = s32 (u32 (nextpixels + (line_x0 + 2)));
         line_x = line_x0 + 1;
         prev_line_x = line_x0;
         next_line_x = line_x0 + 2;
         far_line_x = line_x0 + 3;
         xfrac = (x_start l div 32) mod 32;
         lerping = (ctrl_aa_mode (ctrl s) \<noteq> VI_AA_REPLICATE \<and> (xfrac \<noteq> 0 \<or> yfrac \<noteq> 0));
         l1 = aa_window L s Viaa prev_line_x line_x next_line_x prev_x cur_x next_x 0 l;
         l2 = aa_window L s Viaa_next prev_line_x line_x next_line_x
                prev_scan_x scan_x next_scan_x (fetchbugstate l1) l1;
         (color, l3) = pick_color L s prev_line_x line_x next_line_x far_line_x far_x far_scan_x l2;
         (color', l4) = lerp_color L s lerping line_x next_line_x xfrac yfrac color l3;
         l5 = emit L s dbase i color' l4
     in l5\<lparr>x_start := u32 (x_start l5 + x_add s)\<rparr>)"

text \<open>
  Lines 485 to 503: the head of the loop over the scanlines. \<open>cache_marker_init\<close> is the
  local of that name, computed once before the loop.
\<close>

definition cache_marker_init :: "vi_state \<Rightarrow> int" where
  "cache_marker_init s = x_start_init s div 1024 - 1"

definition row_curry :: "vi_state \<Rightarrow> int \<Rightarrow> int" where
  "row_curry s j = u32 (y_start s + u32 j * y_add s)"

definition row_pixels :: "vi_state \<Rightarrow> int \<Rightarrow> int" where
  "row_pixels s j = u32 (vi_width_low s * (row_curry s j div 1024))"

definition row_begin :: "vi_state \<Rightarrow> int \<Rightarrow> vi_locals \<Rightarrow> vi_locals" where
  "row_begin s j l =
    (let curry = row_curry s j;
         nexty = row_curry s (j + 1);
         prevy = curry div 1024;
         m1 = (marker l)(Viaa := cache_marker_init s, Viaa_next := cache_marker_init s);
         m2 = (if ctrl_divot_enable (ctrl s) \<noteq> 0
               then m1(Divot := cache_marker_init s, Divot_next := cache_marker_init s)
               else m1)
     in l\<lparr>x_start := x_start_init s, marker := m2, trace := [],
          fetchbugstate := (if prevy = nexty div 1024 then 2 else fetchbugstate l div 2)\<rparr>)"

definition row_columns :: "leaf_ops \<Rightarrow> vi_state \<Rightarrow> int \<Rightarrow> vi_locals \<Rightarrow> vi_locals" where
  "row_columns L s j l =
    foldl (vi_column L s (row_pixels s j) (u32 (vi_width_low s + row_pixels s j))
             ((row_curry s j div 32) mod 32) (prescale_ptr s + linecount s * j))
      l (map int [0..<nat (hres s)])"

text \<open>Lines 646 to 663: the swap of the caches after the first scanline.\<close>

definition row_swap :: "vi_state \<Rightarrow> vi_locals \<Rightarrow> vi_locals" where
  "row_swap s l =
    (if \<not> cache_init l \<and> y_add s = 0x400
     then
       (let m1 = (marker l)(Viaa := marker l Viaa_next, Viaa_next := cache_marker_init s);
            c1 = (cache l)(Viaa := cache l Viaa_next, Viaa_next := cache l Viaa)
        in if ctrl_divot_enable (ctrl s) \<noteq> 0
           then l\<lparr>marker := m1(Divot := marker l Divot_next, Divot_next := cache_marker_init s),
                  cache := c1(Divot := cache l Divot_next, Divot_next := cache l Divot),
                  cache_init := True\<rparr>
           else l\<lparr>marker := m1, cache := c1, cache_init := True\<rparr>)
     else l)"

definition vi_row :: "leaf_ops \<Rightarrow> vi_state \<Rightarrow> vi_locals \<Rightarrow> int \<Rightarrow> vi_locals" where
  "vi_row L s l j = row_swap s (row_columns L s j (row_begin s j l))"

text \<open>
  The loop \<^verbatim>\<open>for (j = j_start; j < j_end; j += j_add)\<close>. A worker exists only when the
  number of workers is positive, so the stride is positive whenever the loop runs; the
  test on the stride makes the recursion total.
\<close>

function vi_rows :: "leaf_ops \<Rightarrow> vi_state \<Rightarrow> int \<Rightarrow> int \<Rightarrow> int \<Rightarrow> vi_locals \<Rightarrow> vi_locals" where
  "vi_rows L s j j_end j_add l =
    (if j < j_end \<and> 0 < j_add then vi_rows L s (j + j_add) j_end j_add (vi_row L s l j) else l)"
  by pat_completeness auto
termination
  by (relation "measure (\<lambda>(L, s, j, j_end, j_add, l). nat (j_end - j))") auto

declare vi_rows.simps [simp del]

text \<open>
  \<^verbatim>\<open>vi_process\<close> as one worker runs it. \<open>num_workers\<close> is the configuration value,
  \<open>worker_id\<close> and \<open>worker_num\<close> are what \<^verbatim>\<open>parallel_worker_id()\<close> and
  \<^verbatim>\<open>parallel_worker_num()\<close> return. The arrays are not initialised by the C
  function; \<open>garbage\<close> is what they hold on entry.
\<close>

definition locals_init :: "(int \<Rightarrow> ccvg) \<times> (int \<Rightarrow> ccvg) \<Rightarrow> int \<Rightarrow> vi_locals" where
  "locals_init garbage seed =
    \<lparr>x_start = 0, marker = (\<lambda>c. 0),
     cache = (\<lambda>c. case c of Viaa \<Rightarrow> 0 | Viaa_next \<Rightarrow> 0xa10 | Divot \<Rightarrow> 0 | Divot_next \<Rightarrow> 0xa10),
     viaa_array = fst garbage, divot_array = snd garbage,
     fetchbugstate = 0, cache_init = False, iseed = seed, stores = [], trace = [], rgbs = [],
     fault = False\<rparr>"

definition vi_process ::
  "leaf_ops \<Rightarrow> vi_state \<Rightarrow> nat \<Rightarrow> nat \<Rightarrow> nat \<Rightarrow> (int \<Rightarrow> ccvg) \<times> (int \<Rightarrow> ccvg) \<Rightarrow> int \<Rightarrow> vi_locals" where
  "vi_process L s num_workers worker_id worker_num garbage seed =
    (let j_start = (if num_workers \<noteq> 1 then int worker_id else 0);
         j_add = (if num_workers \<noteq> 1 then int worker_num else 1)
     in vi_rows L s j_start (vres s) j_add (locals_init garbage seed))"

subsection \<open>vi_process_end\<close>

text \<open>
  What \<^verbatim>\<open>vi_process_end\<close> passes to \<^verbatim>\<open>screen_upload\<close>: \<open>up_buffer\<close> is the index in
  \<^verbatim>\<open>prescale\<close> that \<^verbatim>\<open>buffer\<close> points to. The screenshot writer touches only the
  file system and is left out.
\<close>

record upload =
  up_buffer :: int
  up_width :: int
  up_height :: int
  up_pitch :: int
  up_output_height :: int

definition vi_process_end :: "bool \<Rightarrow> vi_state \<Rightarrow> upload" where
  "vi_process_end widescreen s =
    (let pitch = PRESCALE_WIDTH;
         width = maxhpass s - minhpass s;
         height = vres s * 2 ^ nat (ctrl_serrate (ctrl s));
         output_height = c_div (vres s * 2 * V_SYNC_NTSC) (v_sync s);
         x = h_start s + minhpass s;
         y = (v_start s + oldlowerfield s) * 2 ^ nat (ctrl_serrate (ctrl s))
     in \<lparr>up_buffer = x + y * pitch, up_width = width, up_height = height, up_pitch = pitch,
         up_output_height = (if widescreen then c_div (output_height * 9) 16 else output_height)\<rparr>)"

subsection \<open>The fast path\<close>

datatype vi_mode = VI_MODE_NORMAL | VI_MODE_COLOR | VI_MODE_DEPTH | VI_MODE_COVERAGE

text \<open>
  The body of the inner loop of \<^verbatim>\<open>vi_process_fast\<close>, lines 776 to 822. The locals
  \<^verbatim>\<open>y_start\<close> and \<^verbatim>\<open>y_add\<close> of that function shadow the statics; the model calls
  them \<open>y_first\<close> and \<open>y_step\<close>. The two
  \<^verbatim>\<open>assert(false)\<close> branches are not reached: \<^verbatim>\<open>vi_update\<close> takes the fast path only for
  a mode other than normal, and \<^verbatim>\<open>vi_process_start_fast\<close> returns 0 unless the type is 2
  or 3. The pair is the list of stores to \<^verbatim>\<open>prescale\<close> and the state of the PRNG.
\<close>

definition vi_fast_column ::
  "leaf_ops \<Rightarrow> vi_mode \<Rightarrow> vi_state \<Rightarrow> int \<Rightarrow> (int \<times> int) list \<times> int \<Rightarrow> int \<Rightarrow> (int \<times> int) list \<times> int" where
  "vi_fast_column L mode s y acc x =
    (let line = y * vi_width_low s;
         rgb0 =
           (case mode of
              VI_MODE_COLOR \<Rightarrow>
                (if ctrl_type (ctrl s) = VI_TYPE_RGBA5551
                 then (let pix = rdram_read_idx16 L (u32 (frame_buffer s div 2 + line + x))
                       in (((pix div 2048) mod 32) * 8, ((pix div 64) mod 32) * 8,
                           ((pix div 2) mod 32) * 8))
                 else if ctrl_type (ctrl s) = VI_TYPE_RGBA8888
                 then (let pix = rdram_read_idx32 L (u32 (frame_buffer s div 4 + line + x))
                       in ((pix div 2 ^ 24) mod 256, (pix div 2 ^ 16) mod 256,
                           (pix div 2 ^ 8) mod 256))
                 else (0, 0, 0))
            | VI_MODE_DEPTH \<Rightarrow>
                (let p = rdram_read_idx16 L (u32 (rdp_get_zb_address L div 2 + line + x)) div 256
                 in (p, p, p))
            | VI_MODE_COVERAGE \<Rightarrow>
                (let (pix, hval) = rdram_read_pair16 L (u32 (frame_buffer s div 2 + line + x));
                     p = (((pix mod 2) * 4) OR hval) * 32
                 in (p, p, p))
            | VI_MODE_NORMAL \<Rightarrow> (0, 0, 0));
         (rgb, seed) = gamma_filters L rgb0 (ctrl s) (snd acc)
     in (fst acc @ [(y * hres_raw s + x, pack_rgb rgb)], seed))"

definition vi_fast_row ::
  "leaf_ops \<Rightarrow> vi_mode \<Rightarrow> vi_state \<Rightarrow> (int \<times> int) list \<times> int \<Rightarrow> int \<Rightarrow> (int \<times> int) list \<times> int" where
  "vi_fast_row L mode s acc y =
    foldl (vi_fast_column L mode s y) acc (map int [0..<nat (hres_raw s)])"

function vi_fast_rows ::
  "leaf_ops \<Rightarrow> vi_mode \<Rightarrow> vi_state \<Rightarrow> int \<Rightarrow> int \<Rightarrow> int \<Rightarrow> (int \<times> int) list \<times> int
     \<Rightarrow> (int \<times> int) list \<times> int" where
  "vi_fast_rows L mode s y y_end y_step acc =
    (if y < y_end \<and> 0 < y_step
     then vi_fast_rows L mode s (y + y_step) y_end y_step (vi_fast_row L mode s acc y)
     else acc)"
  by pat_completeness auto
termination
  by (relation "measure (\<lambda>(L, mode, s, y, y_end, y_step, acc). nat (y_end - y))") auto

declare vi_fast_rows.simps [simp del]

definition vi_process_fast ::
  "leaf_ops \<Rightarrow> vi_mode \<Rightarrow> vi_state \<Rightarrow> nat \<Rightarrow> nat \<Rightarrow> nat \<Rightarrow> int \<Rightarrow> (int \<times> int) list \<times> int" where
  "vi_process_fast L mode s num_workers worker_id worker_num seed =
    (let y_first = (if num_workers \<noteq> 1 then int worker_id else 0);
         y_step = (if num_workers \<noteq> 1 then int worker_num else 1)
     in vi_fast_rows L mode s y_first (vres_raw s) y_step ([], seed))"

text \<open>
  \<^verbatim>\<open>vi_process_end_fast\<close>, lines 827 to 842. The two divisions are divisions of
  \<^verbatim>\<open>int32_t\<close>: a divisor 0 is undefined behaviour in C (the program traps), and the
  model answers \<open>None\<close>. \<^verbatim>\<open>v_sync\<close> is a 10-bit register field that the fast start
  does not test, so it can be 0 here. The products are computed in \<^verbatim>\<open>int32_t\<close>; the
  model reduces them with \<open>s32\<close>, the two's complement result.
\<close>

definition vi_process_end_fast :: "bool \<Rightarrow> vi_state \<Rightarrow> upload option" where
  "vi_process_end_fast widescreen s =
    (if v_sync s = 0 \<or> hres s = 0 then None
     else
       (let filtered_height = c_div (s32 (s32 (vres s * 2) * V_SYNC_NTSC)) (v_sync s);
            output_height = c_div (s32 (hres_raw s * filtered_height)) (hres s)
        in Some \<lparr>up_buffer = 0, up_width = hres_raw s, up_height = vres_raw s,
                  up_pitch = hres_raw s,
                  up_output_height =
                    (if widescreen then c_div (s32 (output_height * 9)) 16 else output_height)\<rparr>))"

subsection \<open>vi_update\<close>

text \<open>
  The whole state of the module: the statics, the prescale buffer, the static
  \<^verbatim>\<open>vi_mode\<close>, the state of the PRNG, and the calls of \<^verbatim>\<open>screen_upload\<close> and
  \<^verbatim>\<open>screen_swap\<close> made so far.
\<close>

datatype screen_event = Screen_upload upload | Screen_swap

record core_config =
  num_workers :: nat
  vi_mode_cfg :: vi_mode
  vi_widescreen :: bool

record vi_sys =
  vis :: vi_state
  prescale :: "int \<Rightarrow> int"
  cur_mode :: vi_mode
  prng :: int
  screen :: "screen_event list"

text \<open>
  The stores are applied to the buffer in order. \<^verbatim>\<open>prescale\<close> has
  \<^verbatim>\<open>PRESCALE_WIDTH * PRESCALE_HEIGHT\<close> cells; a store outside of it is undefined
  behaviour in C, and the model answers \<open>None\<close>.
\<close>

fun prescale_store :: "(int \<Rightarrow> int) \<Rightarrow> (int \<times> int) list \<Rightarrow> (int \<Rightarrow> int) option" where
  "prescale_store p [] = Some p"
| "prescale_store p (w # ws) =
    (if 0 \<le> fst w \<and> fst w < PRESCALE_WIDTH * PRESCALE_HEIGHT
     then prescale_store (p(fst w := snd w)) ws else None)"

text \<open>
  \<^verbatim>\<open>parallel_run\<close>: every worker of the pool runs the task once, with its own locals.
  Modelled from the spec: \<^verbatim>\<open>parallel_worker_id\<close> is not among the sources; inside a
  task it returns the id of the calling worker, a number below
  \<^verbatim>\<open>parallel_worker_num()\<close>. The model lets the workers run one after the other in the
  order of their ids; \<open>G w\<close> is what the arrays of worker \<open>w\<close> hold on entry. The result
  lists the locals each worker ends with, in the order of the ids.
\<close>

fun vi_workers ::
  "leaf_ops \<Rightarrow> vi_state \<Rightarrow> nat \<Rightarrow> nat \<Rightarrow> (nat \<Rightarrow> (int \<Rightarrow> ccvg) \<times> (int \<Rightarrow> ccvg)) \<Rightarrow> nat list \<Rightarrow> int
     \<Rightarrow> vi_locals list" where
  "vi_workers L s nw wn G [] seed = []"
| "vi_workers L s nw wn G (w # ws) seed =
    (let l = vi_process L s nw w wn (G w) seed
     in l # vi_workers L s nw wn G ws (iseed l))"

fun vi_workers_fast ::
  "leaf_ops \<Rightarrow> vi_mode \<Rightarrow> vi_state \<Rightarrow> nat \<Rightarrow> nat \<Rightarrow> nat list \<Rightarrow> int \<Rightarrow> (int \<times> int) list \<times> int" where
  "vi_workers_fast L mode s nw wn [] seed = ([], seed)"
| "vi_workers_fast L mode s nw wn (w # ws) seed =
    (let (st1, seed1) = vi_process_fast L mode s nw w wn seed;
         (st2, seed2) = vi_workers_fast L mode s nw wn ws seed1
     in (st1 @ st2, seed2))"

text \<open>
  Lines 882 to 887 of \<^verbatim>\<open>vi_update\<close> for the normal and for the fast path. In the
  normal path the result is the list of the locals of the workers, a single one when
  \<^verbatim>\<open>vi_process\<close> is called directly. \<open>frame_stores\<close> is what the frame stores into
  \<^verbatim>\<open>prescale\<close>, \<open>frame_seed\<close> is the state the PRNG is left in, and \<open>frame_fault\<close>
  tells whether a worker left its cache arrays.
\<close>

definition vi_run ::
  "leaf_ops \<Rightarrow> vi_state \<Rightarrow> nat \<Rightarrow> nat \<Rightarrow> (nat \<Rightarrow> (int \<Rightarrow> ccvg) \<times> (int \<Rightarrow> ccvg)) \<Rightarrow> int
     \<Rightarrow> vi_locals list" where
  "vi_run L s nw wn G seed =
    (if nw \<noteq> 1 then vi_workers L s nw wn G [0..<wn] seed
     else [vi_process L s nw 0 wn (G 0) seed])"

definition frame_stores :: "vi_locals list \<Rightarrow> (int \<times> int) list" where
  "frame_stores ls = concat (map stores ls)"

definition frame_seed :: "int \<Rightarrow> vi_locals list \<Rightarrow> int" where
  "frame_seed seed ls = (if ls = [] then seed else iseed (last ls))"

definition frame_fault :: "vi_locals list \<Rightarrow> bool" where
  "frame_fault ls = list_ex fault ls"

definition vi_run_fast ::
  "leaf_ops \<Rightarrow> vi_mode \<Rightarrow> vi_state \<Rightarrow> nat \<Rightarrow> nat \<Rightarrow> int \<Rightarrow> (int \<times> int) list \<times> int" where
  "vi_run_fast L mode s nw wn seed =
    (if nw \<noteq> 1 then vi_workers_fast L mode s nw wn [0..<wn] seed
     else vi_process_fast L mode s nw 0 wn seed)"

text \<open>
  \<^verbatim>\<open>vi_update\<close>. The trace writer is left out. \<open>wn\<close> is the number of workers of the
  pool. The result is \<open>None\<close> when the frame has no defined result in C: a worker
  leaves its cache arrays, a store leaves the prescale buffer, or the fast end divides
  by 0.
\<close>

definition vi_update ::
  "leaf_ops \<Rightarrow> core_config \<Rightarrow> nat \<Rightarrow> (nat \<Rightarrow> (int \<Rightarrow> ccvg) \<times> (int \<Rightarrow> ccvg)) \<Rightarrow> vi_regs \<Rightarrow> vi_sys
     \<Rightarrow> vi_sys option" where
  "vi_update L cfg wn G regs y =
    (let y1 = (if vi_mode_cfg cfg \<noteq> cur_mode y
               then y\<lparr>prescale := (\<lambda>i. 0), cur_mode := vi_mode_cfg cfg\<rparr> else y);
         (ret, s') = (if vi_mode_cfg cfg = VI_MODE_NORMAL
                      then vi_process_start regs (vis y1)
                      else vi_process_start_fast regs (vis y1));
         y2 = y1\<lparr>vis := s'\<rparr>
     in if ret = 0 then Some y2
        else
         (let ls = (if vi_mode_cfg cfg = VI_MODE_NORMAL
                    then vi_run L s' (num_workers cfg) wn G (prng y2) else []);
              (ws, seed) = (if vi_mode_cfg cfg = VI_MODE_NORMAL
                            then (frame_stores ls, frame_seed (prng y2) ls)
                            else vi_run_fast L (vi_mode_cfg cfg) s' (num_workers cfg) wn (prng y2));
              up = (if vi_mode_cfg cfg = VI_MODE_NORMAL
                    then Some (vi_process_end (vi_widescreen cfg) s')
                    else vi_process_end_fast (vi_widescreen cfg) s')
          in if frame_fault ls then None
             else
               (case prescale_store (prescale y2) ws of
                  None \<Rightarrow> None
                | Some p \<Rightarrow>
                    (case up of
                       None \<Rightarrow> None
                     | Some u \<Rightarrow>
                         Some (y2\<lparr>prescale := p, prng := seed,
                                  screen := screen y2 @ [Screen_upload u, Screen_swap]\<rparr>)))))"

text \<open>\<^verbatim>\<open>vi_init\<close> for the whole state: the buffer is cleared and the mode is normal.\<close>

definition vi_sys_init :: "int \<Rightarrow> vi_sys" where
  "vi_sys_init seed =
    \<lparr>vis = vi_init, prescale = (\<lambda>i. 0), cur_mode = VI_MODE_NORMAL, prng = seed, screen = []\<rparr>"

section \<open>Definitions for the statements\<close>


text \<open>
  \<^verbatim>\<open>v_sync - vstartoffset\<close> as line 317 computes it, before the shift of line 322.
\<close>

definition vsync_diff :: "vi_regs \<Rightarrow> int" where
  "vsync_diff regs =
    (let v = uint (VI_V_SYNC regs AND 0x3ff) in v - (if v > V_SYNC_NTSC + 25 then 44 else 34))"

definition other_msgs :: "msg list \<Rightarrow> bool" where
  "other_msgs ms = (Msg_error ''VI_V_SYNC_REG too big'' \<notin> set ms)"

subsection \<open>Concrete inputs\<close>

text \<open>The first end-to-end scenario of the spec: NTSC, 16 bit colour, no interlace.\<close>

definition regs_ntsc :: vi_regs where
  "regs_ntsc = \<lparr>VI_STATUS = 0x3002, VI_ORIGIN = 0x100000, VI_WIDTH = 320,
     VI_V_CURRENT_LINE = 0, VI_X_SCALE = 0x200, VI_Y_SCALE = 0x400, VI_H_START = 0x006C0254,
     VI_V_START = 0x00250205, VI_V_SYNC = 525\<rparr>"

text \<open>The same with \<^verbatim>\<open>VI_V_SYNC = 700\<close>.\<close>

definition regs_vsync700 :: vi_regs where
  "regs_vsync700 = regs_ntsc\<lparr>VI_V_SYNC := 700\<rparr>"

text \<open>\<^verbatim>\<open>VI_V_SYNC = 20\<close>: fewer lines than the vertical offset.\<close>

definition regs_vsync20 :: vi_regs where
  "regs_vsync20 = regs_ntsc\<lparr>VI_V_SYNC := 20\<rparr>"

text \<open>
  A window of 640 by 240 with both scale factors at \<^verbatim>\<open>0x800\<close>: the fast start derives
  a frame of 1280 by 480 pixels.
\<close>

definition regs_fast_big :: vi_regs where
  "regs_fast_big = \<lparr>VI_STATUS = 0x3002, VI_ORIGIN = 0x100000, VI_WIDTH = 640,
     VI_V_CURRENT_LINE = 0, VI_X_SCALE = 0x800, VI_Y_SCALE = 0x800, VI_H_START = 0x006C02EC,
     VI_V_START = 0x00250205, VI_V_SYNC = 525\<rparr>"

text \<open>
  A small frame: the window starts at column 0 and ends at column 116, so that
  \<^verbatim>\<open>h_start\<close> is clamped and eight columns are left, of which column 0 is in the pass
  band; \<open>vres\<close> is 1. The type is blank.
\<close>

definition regs_blank :: vi_regs where
  "regs_blank = \<lparr>VI_STATUS = 0, VI_ORIGIN = 0x100000, VI_WIDTH = 320,
     VI_V_CURRENT_LINE = 0, VI_X_SCALE = 0x400, VI_Y_SCALE = 0x400, VI_H_START = 0x00000074,
     VI_V_START = 0x00220024, VI_V_SYNC = 525\<rparr>"


text \<open>
  Stand-ins for the leaf operations, used where a statement is evaluated at a concrete
  input. The sample of \<open>leaf0\<close> carries the fetch-bug flag in its red channel and the
  position in its green channel.
\<close>

definition leaf0 :: leaf_ops where
  "leaf0 =
    \<lparr>vi_fetch_filter_func =
       (\<lambda>sel fb x c w fbs.
          \<lparr>ccvg_r = word_of_int (64 * fbs), ccvg_g = word_of_int x, ccvg_b = 0, ccvg_cvg = 7\<rparr>),
     divot_filter = (\<lambda>a b c. a),
     vi_vl_lerp = (\<lambda>d s f. d),
     irand = (\<lambda>s. (s, s + 1)),
     gamma_dither = (\<lambda>v rgb. rgb),
     gamma_table = (\<lambda>x. x),
     rdram_read_idx16 = (\<lambda>i. 0),
     rdram_read_idx32 = (\<lambda>i. 0),
     rdram_read_pair16 = (\<lambda>i. (0, 0)),
     rdp_get_zb_address = 0\<rparr>"

definition cfg_single :: core_config where
  "cfg_single = \<lparr>num_workers = 1, vi_mode_cfg = VI_MODE_NORMAL, vi_widescreen = False\<rparr>"

definition cfg_depth :: core_config where
  "cfg_depth = \<lparr>num_workers = 1, vi_mode_cfg = VI_MODE_DEPTH, vi_widescreen = False\<rparr>"

definition garbage0 :: "nat \<Rightarrow> (int \<Rightarrow> ccvg) \<times> (int \<Rightarrow> ccvg)" where
  "garbage0 =
    (\<lambda>w. ((\<lambda>i. \<lparr>ccvg_r = 0, ccvg_g = 0, ccvg_b = 0, ccvg_cvg = 0\<rparr>),
          (\<lambda>i. \<lparr>ccvg_r = 0, ccvg_g = 0, ccvg_b = 0, ccvg_cvg = 0\<rparr>)))"

subsection \<open>The accesses of one column\<close>







text \<open>
  \<^verbatim>\<open>h_start\<close> after line 242, before the clamp of line 248, and the two tests that set
  \<^verbatim>\<open>h_start_clamped\<close> (line 248) and \<^verbatim>\<open>hres_clamped\<close> (line 302), in terms of the
  registers: before line 302 the sum \<^verbatim>\<open>hres + h_start\<close> is the end of the window minus
  the horizontal offset, whether or not \<^verbatim>\<open>h_start\<close> was clamped.
\<close>

definition h_start_raw :: "vi_regs \<Rightarrow> int" where
  "h_start_raw regs = uint (drop_bit 16 (VI_H_START regs) AND 0x3ff)
     - (if uint (VI_V_SYNC regs AND 0x3ff) > V_SYNC_NTSC + 25 then 128 else 108)"

definition h_start_clamped :: "vi_regs \<Rightarrow> bool" where
  "h_start_clamped regs = (h_start_raw regs < 0)"

definition hres_clamped :: "vi_regs \<Rightarrow> bool" where
  "hres_clamped regs =
    (uint (VI_H_START regs AND 0x3ff)
       - (if uint (VI_V_SYNC regs AND 0x3ff) > V_SYNC_NTSC + 25 then 128 else 108)
     > PRESCALE_WIDTH)"

text \<open>
  The discipline of the caches, as a monitor that reads the accesses of one scanline in
  program order. Its state is the marker of each cache, the columns fetched into each
  cache, and of those the ones that a later assignment to the marker has covered (the
  marker was set to a value not below the column). An assignment to a marker is
  admitted when it does not lower the marker; a read of a column is admitted when the
  column is covered.
\<close>

type_synonym monitor = "(cache_id \<Rightarrow> int) \<times> (cache_id \<Rightarrow> int set) \<times> (cache_id \<Rightarrow> int set)"





definition grows :: "monitor \<Rightarrow> monitor \<Rightarrow> bool" where
  "grows mo mo' = (\<forall>c k. k \<in> snd (snd mo) c \<longrightarrow> k \<in> snd (snd mo') c)"


section \<open>Properties of vi_process_start\<close>

subsection \<open>What each part of the start leaves alone\<close>

lemma start_finish_keeps:
  "hres (snd (start_finish regs hc lf ls vo rc s)) = hres s"
  "vres (snd (start_finish regs hc lf ls vo rc s)) = vres s"
  "h_start (snd (start_finish regs hc lf ls vo rc s)) = h_start s"
  "v_start (snd (start_finish regs hc lf ls vo rc s)) = v_start s"
  "oldlowerfield (snd (start_finish regs hc lf ls vo rc s)) = oldlowerfield s"
  "ctrl (snd (start_finish regs hc lf ls vo rc s)) = ctrl s"
  "prevwasblank (snd (start_finish regs hc lf ls vo rc s)) = prevwasblank s"
  by (simp_all add: start_finish_def Let_def)

lemma start_clamp_keeps:
  "oldlowerfield (fst (start_clamp s)) = oldlowerfield s"
  "prevwasblank (fst (start_clamp s)) = prevwasblank s"
  "v_sync (fst (start_clamp s)) = v_sync s"
  "ctrl (fst (start_clamp s)) = ctrl s"
  "ispal (fst (start_clamp s)) = ispal s"
  by (simp_all add: start_clamp_def Let_def)

lemma start_vertical_keeps:
  "oldlowerfield (fst (start_vertical regs s)) = oldlowerfield s"
  "prevwasblank (fst (start_vertical regs s)) = prevwasblank s"
  "v_sync (fst (start_vertical regs s)) = v_sync s"
  "ctrl (fst (start_vertical regs s)) = ctrl s"
  by (simp_all add: start_vertical_def Let_def)

lemma start_vertical_locals:
  "snd (start_vertical regs s) =
     (if ctrl_serrate (ctrl s) = 0 then 1 else 0, if ispal s \<noteq> 0 then 44 else 34)"
  by (simp add: start_vertical_def Let_def)

lemma start_field_keeps:
  "prevwasblank (fst (start_field regs s)) = prevwasblank s"
  "v_sync (fst (start_field regs s)) = v_sync s"
  "ctrl (fst (start_field regs s)) = ctrl s"
  "ispal (fst (start_field regs s)) = ispal s"
  by (simp_all add: start_field_def Let_def)


lemma start_decode_keeps:
  "prevwasblank (fst (start_decode regs s)) = prevwasblank s"
  "v_sync (fst (start_decode regs s)) = uint (VI_V_SYNC regs AND 0x3ff)"
  "ctrl (fst (start_decode regs s)) = VI_STATUS regs"
  "ispal (fst (start_decode regs s)) = (if uint (VI_V_SYNC regs AND 0x3ff) > 550 then 1 else 0)"
  by (simp_all add: start_decode_def Let_def)


lemma start_prevwasblank:
  "prevwasblank (snd (vi_process_start regs s)) = prevwasblank s"
  by (simp add: vi_process_start_def split_beta Let_def start_finish_keeps start_clamp_keeps
      start_vertical_keeps start_field_keeps start_decode_keeps)

lemma start_ctrl: "ctrl (snd (vi_process_start regs s)) = VI_STATUS regs"
  by (simp add: vi_process_start_def split_beta Let_def start_finish_keeps start_clamp_keeps
      start_vertical_keeps start_field_keeps start_decode_keeps)

subsection \<open>The clamps\<close>

lemma start_clamp_bound:
  "h_start (fst (start_clamp s)) + hres (fst (start_clamp s)) \<le> PRESCALE_WIDTH \<and>
   v_start (fst (start_clamp s)) + vres (fst (start_clamp s)) \<le> PRESCALE_HEIGHT"
  by (simp add: start_clamp_def Let_def)

lemma start_in_prescale:
  "h_start (snd (vi_process_start regs s)) + hres (snd (vi_process_start regs s))
     \<le> PRESCALE_WIDTH \<and>
   v_start (snd (vi_process_start regs s)) + vres (snd (vi_process_start regs s))
     \<le> PRESCALE_HEIGHT"
  using start_clamp_bound
    [of "fst (start_vertical regs (fst (start_field regs (fst (start_decode regs s)))))"]
  by (simp add: vi_process_start_def split_beta Let_def start_finish_keeps)

text \<open>
  C2. For every register state and every state of the statics, whatever
  \<^verbatim>\<open>vi_process_start\<close> returns, the geometry it leaves satisfies
  \<open>h_start + hres \<le> PRESCALE_WIDTH\<close> and \<open>v_start + vres \<le> PRESCALE_HEIGHT\<close>.
\<close>

theorem C2_geometry_in_prescale:
  "h_start (snd (vi_process_start regs s)) + hres (snd (vi_process_start regs s))
     \<le> PRESCALE_WIDTH \<and>
   v_start (snd (vi_process_start regs s)) + vres (snd (vi_process_start regs s))
     \<le> PRESCALE_HEIGHT"
  by (rule start_in_prescale)

theorem C2_geometry_in_prescale_witness:
  "h_start (snd (vi_process_start regs_ntsc vi_init))
     + hres (snd (vi_process_start regs_ntsc vi_init)) \<le> PRESCALE_WIDTH \<and>
   v_start (snd (vi_process_start regs_ntsc vi_init))
     + vres (snd (vi_process_start regs_ntsc vi_init)) \<le> PRESCALE_HEIGHT"
  by (rule C2_geometry_in_prescale)

subsection \<open>The active lines\<close>

lemma start_decode_sink:
  "\<exists>ms. sink (fst (start_decode regs s)) = sink s @ ms \<and> other_msgs ms"
  by (simp add: start_decode_def Let_def other_msgs_def)

lemma start_field_sink: "sink (fst (start_field regs s)) = sink s"
  by (simp add: start_field_def Let_def)

lemma start_vertical_sink: "sink (fst (start_vertical regs s)) = sink s"
  by (simp add: start_vertical_def Let_def)

lemma start_clamp_sink:
  "\<exists>ms. sink (fst (start_clamp s)) = sink s @ ms \<and> other_msgs ms"
  by (simp add: start_clamp_def Let_def other_msgs_def)

lemma start_finish_sink:
  "sink (snd (start_finish regs hc lf ls vo rc s)) =
     sink s @ (if v_sync s - vo > PRESCALE_HEIGHT
               then [Msg_error ''VI_V_SYNC_REG too big''] else [])"
  by (simp add: start_finish_def Let_def)

lemma start_finish_vactive:
  "v_sync s - vo < 0 \<Longrightarrow>
     start_finish regs hc lf ls vo rc s = (0, s\<lparr>vactivelines := v_sync s - vo\<rparr>)"
  "0 \<le> v_sync s - vo \<Longrightarrow>
     vactivelines (snd (start_finish regs hc lf ls vo rc s)) = (v_sync s - vo) div 2 ^ ls"
  by (simp_all add: start_finish_def Let_def)

lemma start_as_finish:
  "\<exists>hc lf rc s4 ms. vi_process_start regs s =
      start_finish regs hc lf (if ctrl_serrate (VI_STATUS regs) = 0 then 1 else 0)
        (if uint (VI_V_SYNC regs AND 0x3ff) > 550 then 44 else 34) rc s4
     \<and> v_sync s4 = uint (VI_V_SYNC regs AND 0x3ff) \<and> sink s4 = sink s @ ms \<and> other_msgs ms"
proof -
  obtain s1 hc where d: "start_decode regs s = (s1, hc)"
    by (cases "start_decode regs s")
  obtain s2 lf where f: "start_field regs s1 = (s2, lf)"
    by (cases "start_field regs s1")
  obtain s3 ls vo where v: "start_vertical regs s2 = (s3, ls, vo)"
    by (cases "start_vertical regs s2")
  obtain s4 rc where c: "start_clamp s3 = (s4, rc)"
    by (cases "start_clamp s3")
  from start_decode_keeps [of regs s] d
  have k1: "v_sync s1 = uint (VI_V_SYNC regs AND 0x3ff)" "ctrl s1 = VI_STATUS regs"
    "ispal s1 = (if uint (VI_V_SYNC regs AND 0x3ff) > 550 then 1 else 0)"
    by simp_all
  from start_field_keeps [of regs s1] f k1
  have k2: "v_sync s2 = uint (VI_V_SYNC regs AND 0x3ff)" "ctrl s2 = VI_STATUS regs"
    "ispal s2 = (if uint (VI_V_SYNC regs AND 0x3ff) > 550 then 1 else 0)"
    by simp_all
  from start_vertical_keeps [of regs s2] start_vertical_locals [of regs s2] v k2
  have k3: "v_sync s3 = uint (VI_V_SYNC regs AND 0x3ff)"
    "ls = (if ctrl_serrate (VI_STATUS regs) = 0 then 1 else 0)"
    "vo = (if uint (VI_V_SYNC regs AND 0x3ff) > 550 then 44 else 34)"
    by auto
  from start_clamp_keeps [of s3] c k3
  have k4: "v_sync s4 = uint (VI_V_SYNC regs AND 0x3ff)"
    by simp
  from start_decode_sink [of regs s] d
  obtain m1 where m1: "sink s1 = sink s @ m1" "other_msgs m1"
    by auto
  from start_field_sink [of regs s1] f have m2: "sink s2 = sink s1"
    by simp
  from start_vertical_sink [of regs s2] v have m3: "sink s3 = sink s2"
    by simp
  from start_clamp_sink [of s3] c
  obtain m4 where m4: "sink s4 = sink s3 @ m4" "other_msgs m4"
    by auto
  have m: "sink s4 = sink s @ (m1 @ m4)" "other_msgs (m1 @ m4)"
    using m1 m2 m3 m4 by (simp_all add: other_msgs_def)
  have "vi_process_start regs s = start_finish regs hc lf ls vo rc s4"
    by (simp add: vi_process_start_def d f v c)
  with k3 k4 m show ?thesis
    by blast
qed

text \<open>
  C5, as the claim states it, fails. With \<^verbatim>\<open>VI_V_SYNC = 700\<close> and no interlace the
  difference of line 317 is 656: the error is reported, yet the value that
  \<^verbatim>\<open>vactivelines\<close> ends with is 328, which does not exceed \<^verbatim>\<open>PRESCALE_HEIGHT\<close>.
\<close>

theorem C5_error_on_unshifted_counterexample:
  "sink (snd (vi_process_start regs_vsync700 vi_init)) = [Msg_error ''VI_V_SYNC_REG too big'']
   \<and> vactivelines (snd (vi_process_start regs_vsync700 vi_init)) = 328
   \<and> \<not> 328 > PRESCALE_HEIGHT"
  by code_simp

text \<open>
  C5, amended. Let \<open>d\<close> be \<^verbatim>\<open>v_sync - vstartoffset\<close>, with the offset 44 for PAL and 34
  for NTSC. \<^verbatim>\<open>vi_process_start\<close> reports the error exactly when \<open>d\<close>, before the
  shift, exceeds \<^verbatim>\<open>PRESCALE_HEIGHT\<close>. When \<open>d\<close> is negative it returns 0 and leaves
  \<^verbatim>\<open>vactivelines = d\<close>, not shifted. Otherwise it goes on with
  \<^verbatim>\<open>vactivelines = d >> (serrate ? 0 : 1)\<close>.
\<close>

theorem C5_vactivelines:
  "(Msg_error ''VI_V_SYNC_REG too big''
       \<in> set (drop (length (sink s)) (sink (snd (vi_process_start regs s))))
      \<longleftrightarrow> vsync_diff regs > PRESCALE_HEIGHT)
   \<and> (vsync_diff regs < 0 \<longrightarrow>
        fst (vi_process_start regs s) = 0
        \<and> vactivelines (snd (vi_process_start regs s)) = vsync_diff regs)
   \<and> (0 \<le> vsync_diff regs \<longrightarrow>
        vactivelines (snd (vi_process_start regs s)) =
          vsync_diff regs div 2 ^ (if ctrl_serrate (VI_STATUS regs) \<noteq> 0 then 0 else 1))"
proof -
  from start_as_finish [of regs s] obtain hc lf rc s4 ms where
    e: "vi_process_start regs s =
      start_finish regs hc lf (if ctrl_serrate (VI_STATUS regs) = 0 then 1 else 0)
        (if uint (VI_V_SYNC regs AND 0x3ff) > 550 then 44 else 34) rc s4"
    and k: "v_sync s4 = uint (VI_V_SYNC regs AND 0x3ff)"
    and m: "sink s4 = sink s @ ms" "other_msgs ms"
    by blast
  have d: "vsync_diff regs
      = v_sync s4 - (if uint (VI_V_SYNC regs AND 0x3ff) > 550 then 44 else 34)"
    by (simp add: vsync_diff_def k Let_def)
  have 1: "(Msg_error ''VI_V_SYNC_REG too big''
       \<in> set (drop (length (sink s)) (sink (snd (vi_process_start regs s))))
      \<longleftrightarrow> vsync_diff regs > PRESCALE_HEIGHT)"
    using m unfolding e start_finish_sink d [symmetric] by (simp add: other_msgs_def)
  have 2: "vsync_diff regs < 0 \<longrightarrow>
        fst (vi_process_start regs s) = 0
        \<and> vactivelines (snd (vi_process_start regs s)) = vsync_diff regs"
    unfolding e d by (simp add: start_finish_vactive(1))
  have 3: "0 \<le> vsync_diff regs \<longrightarrow>
        vactivelines (snd (vi_process_start regs s)) =
          vsync_diff regs div 2 ^ (if ctrl_serrate (VI_STATUS regs) \<noteq> 0 then 0 else 1)"
    unfolding e d by (auto simp add: start_finish_vactive(2))
  from 1 2 3 show ?thesis
    by blast
qed

theorem C5_vactivelines_witness:
  "vsync_diff regs_vsync20 < 0
   \<and> fst (vi_process_start regs_vsync20 vi_init) = 0
   \<and> vactivelines (snd (vi_process_start regs_vsync20 vi_init)) = vsync_diff regs_vsync20
   \<and> 0 \<le> vsync_diff regs_vsync700
   \<and> vactivelines (snd (vi_process_start regs_vsync700 vi_init)) =
       vsync_diff regs_vsync700 div 2 ^ (if ctrl_serrate (VI_STATUS regs_vsync700) \<noteq> 0 then 0 else 1)"
proof -
  have a: "vsync_diff regs_vsync20 < 0"
    by code_simp
  have b: "0 \<le> vsync_diff regs_vsync700"
    by code_simp
  from a b C5_vactivelines [of vi_init regs_vsync20] C5_vactivelines [of vi_init regs_vsync700]
  show ?thesis
    by blast
qed

section \<open>The fast path\<close>

lemma prescale_store_None:
  "\<exists>w \<in> set ws. \<not> (0 \<le> fst w \<and> fst w < PRESCALE_WIDTH * PRESCALE_HEIGHT) \<Longrightarrow> prescale_store p ws = None"
  by (induction ws arbitrary: p) auto

lemma fast_columns_fst:
  "map fst (fst (foldl (vi_fast_column L mode s y) acc xs)) =
     map fst (fst acc) @ map (\<lambda>x. y * hres_raw s + x) xs"
  by (induction xs arbitrary: acc) (simp_all add: vi_fast_column_def Let_def split_beta)

lemma fast_row_fst:
  "map fst (fst (vi_fast_row L mode s acc y)) =
     map fst (fst acc) @ map (\<lambda>x. y * hres_raw s + x) (map int [0..<nat (hres_raw s)])"
  by (simp add: vi_fast_row_def fast_columns_fst)

lemma fast_row_mono:
  "i \<in> fst ` set (fst acc) \<Longrightarrow> i \<in> fst ` set (fst (vi_fast_row L mode s acc y))"
proof -
  assume "i \<in> fst ` set (fst acc)"
  then have "i \<in> set (map fst (fst acc))" by simp
  then have "i \<in> set (map fst (fst (vi_fast_row L mode s acc y)))"
    unfolding fast_row_fst by simp
  then show ?thesis by simp
qed

lemma fast_row_first:
  assumes "0 < hres_raw s"
  shows "y * hres_raw s \<in> fst ` set (fst (vi_fast_row L mode s acc y))"
proof -
  from assms have "0 \<in> set (map int [0..<nat (hres_raw s)])" by (simp add: image_iff) 
  then have "y * hres_raw s + 0 \<in> set (map (\<lambda>x. y * hres_raw s + x) (map int [0..<nat (hres_raw s)]))"
    by (metis (no_types, lifting) imageI list.set_map)
  then have "y * hres_raw s \<in> set (map fst (fst (vi_fast_row L mode s acc y)))"
    unfolding fast_row_fst by simp
  then show ?thesis by simp
qed

lemma fast_rows_mono:
  "i \<in> fst ` set (fst acc) \<Longrightarrow> i \<in> fst ` set (fst (vi_fast_rows L mode s y y_end 1 acc))"
proof (induction L mode s y y_end "1::int" acc rule: vi_fast_rows.induct)
  case (1 L mode s y y_end acc)
  show ?case
  proof (cases "y < y_end")
    case True
    with 1 show ?thesis by (subst vi_fast_rows.simps) (simp add: fast_row_mono)
  next
    case False
    with 1 show ?thesis by (subst vi_fast_rows.simps) simp
  qed
qed

lemma fast_rows_hit:
  "0 < hres_raw s \<Longrightarrow> y \<le> k \<Longrightarrow> k < y_end \<Longrightarrow>
     k * hres_raw s \<in> fst ` set (fst (vi_fast_rows L mode s y y_end 1 acc))"
proof (induction L mode s y y_end "1::int" acc rule: vi_fast_rows.induct)
  case (1 L mode s y y_end acc)
  show ?case
  proof (cases "y = k")
    case True
    with 1 show ?thesis
      by (subst vi_fast_rows.simps) (simp add: fast_rows_mono fast_row_first)
  next
    case False
    with 1 show ?thesis
      by (subst vi_fast_rows.simps) simp
  qed
qed

lemma start_fast_big: "vi_process_start_fast regs_fast_big vi_init = (1, vi_init\<lparr>hres := 640, vres := 240, x_add := 0x800, y_add := 0x800,
   hres_raw := 1280, vres_raw := 480, vi_width_low := 640, frame_buffer := 0x100000, ctrl := 0x3002, v_sync := 525\<rparr>)"
  by code_simp

text \<open>
  C9 fails on the code: the fast start does not clamp \<^verbatim>\<open>hres_raw\<close> and \<^verbatim>\<open>vres_raw\<close>.
  With the registers \<open>regs_fast_big\<close> it accepts the frame with \<^verbatim>\<open>hres_raw = 1280\<close> and
  \<^verbatim>\<open>vres_raw = 480\<close>; the last index \<^verbatim>\<open>y * hres_raw + x\<close> is 614399, beyond the 400000
  cells of \<^verbatim>\<open>prescale\<close>, and the frame leaves the buffer for every choice of the leaf
  operations.
\<close>

theorem C9_fast_path_overruns_prescale:
  "fst (vi_process_start_fast regs_fast_big vi_init) = 1
   \<and> hres_raw (snd (vi_process_start_fast regs_fast_big vi_init)) = 1280
   \<and> vres_raw (snd (vi_process_start_fast regs_fast_big vi_init)) = 480
   \<and> (479 * 1280 + 1279 :: int) \<ge> PRESCALE_WIDTH * PRESCALE_HEIGHT
   \<and> vi_update L cfg_depth wn G regs_fast_big (vi_sys_init seed) = None"
proof -
  let ?s = "snd (vi_process_start_fast regs_fast_big vi_init)"
  have a: "fst (vi_process_start_fast regs_fast_big vi_init) = 1" "hres_raw ?s = 1280" "vres_raw ?s = 480"
    by (simp_all add: start_fast_big)
  have "400 * hres_raw ?s \<in> fst ` set (fst (vi_fast_rows L VI_MODE_DEPTH ?s 0 (vres_raw ?s) 1 ([], seed)))"
    by (rule fast_rows_hit) (simp_all add: a)
  then have "\<exists>w \<in> set (fst (vi_fast_rows L VI_MODE_DEPTH ?s 0 (vres_raw ?s) 1 ([], seed))).
       \<not> (0 \<le> fst w \<and> fst w < PRESCALE_WIDTH * PRESCALE_HEIGHT)"
    by (force simp add: a)
  then have "prescale_store (\<lambda>i. 0) (fst (vi_fast_rows L VI_MODE_DEPTH ?s 0 (vres_raw ?s) 1 ([], seed))) = None"
    by (rule prescale_store_None)
  then have "vi_update L cfg_depth wn G regs_fast_big (vi_sys_init seed) = None"
    using a(1) by (simp add: vi_update_def cfg_depth_def vi_sys_init_def Let_def split_beta vi_run_fast_def vi_process_fast_def)
  with a show ?thesis by simp
qed

section \<open>vi_update in normal mode\<close>







text \<open>
  C3 fails on the code. \<^verbatim>\<open>prevwasblank\<close> is assigned only inside the block that
  \<^verbatim>\<open>ENABLE_TVFADEOUT\<close> guards, and that switch is 0: from \<^verbatim>\<open>vi_init\<close> on the variable
  stays 0 (lemma \<open>start_prevwasblank\<close>) and the test of line 334 never holds. Two
  successive updates with the blank registers \<open>regs_blank\<close> both run the filter and both
  call \<^verbatim>\<open>screen_upload\<close>.
\<close>

theorem C3_second_blank_frame_is_drawn:
  "fst (vi_process_start regs_blank (snd (vi_process_start regs_blank vi_init))) = 1
   \<and> map_option screen
       (Option.bind (vi_update leaf0 cfg_single 1 garbage0 regs_blank (vi_sys_init 1))
          (vi_update leaf0 cfg_single 1 garbage0 regs_blank))
     = Some [Screen_upload \<lparr>up_buffer = 0, up_width = 1, up_height = 1,
                up_pitch = PRESCALE_WIDTH, up_output_height = 2\<rparr>, Screen_swap,
             Screen_upload \<lparr>up_buffer = 0, up_width = 1, up_height = 1,
                up_pitch = PRESCALE_WIDTH, up_output_height = 2\<rparr>, Screen_swap]"
  by code_simp

section \<open>The scanline loop\<close>

subsection \<open>What the cache operations change\<close>

































lemma grows_refl: "grows mo mo"
  by (simp add: grows_def)





































end
